theory Spec2Isabelle
  imports Complex_Main
begin

section \<open>The number type: C++ \<open>double\<close> as IEEE-754 binary64\<close>

text \<open>
  Every field of the header \<open>PivotControlMessages.h\<close> is a \<open>double\<close>. A \<open>double\<close> is
  either not-a-number, one of the two infinities, or a finite number. Finite numbers are
  carried by their real value; the two zeros share the value \<open>0\<close> (no comparison of the
  header tells them apart). Arithmetic computes the exact real result and rounds it to
  the nearest binary64 number, ties to the even significand, which is the default
  rounding mode; each operation is rounded on its own.

  \<open>Finite x\<close> is a binary64 number when \<open>x\<close> is its own rounding. The results below are
  stated for every real \<open>x\<close>, hence for every binary64 number; the concrete poses and
  tolerances of the examples are binary64 numbers or roundings of decimal literals.
\<close>

datatype double = NaN | PInf | NInf | Finite real

text \<open>\<open>std::isnan\<close> and \<open>std::isfinite\<close>.\<close>

fun isnan :: "double \<Rightarrow> bool" where
  "isnan NaN = True"
| "isnan PInf = False"
| "isnan NInf = False"
| "isnan (Finite x) = False"

fun isfinite :: "double \<Rightarrow> bool" where
  "isfinite NaN = False"
| "isfinite PInf = False"
| "isfinite NInf = False"
| "isfinite (Finite x) = True"

subsection \<open>Rounding a real number to binary64\<close>

text \<open>
  The binary exponent of a non-zero real, not below the exponent \<open>-1022\<close> of the
  smallest normal number (below it the numbers are subnormal and equally spaced).
\<close>

definition exponent64 :: "real \<Rightarrow> int" where
  "exponent64 x = max \<lfloor>log 2 \<bar>x\<bar>\<rfloor> (- 1022)"

text \<open>The spacing of the binary64 numbers around \<open>x\<close>: 52 fraction bits below the exponent.\<close>

definition quantum64 :: "real \<Rightarrow> real" where
  "quantum64 x = 2 powi (exponent64 x - 52)"

text \<open>The nearest integer, a tie going to the even one.\<close>

definition nearest_even :: "real \<Rightarrow> int" where
  "nearest_even m =
     (let f = \<lfloor>m\<rfloor>; d = m - of_int f
      in if d < 1 / 2 then f
         else if 1 / 2 < d then f + 1
         else if even f then f else f + 1)"

text \<open>One step above the largest finite binary64 number \<open>2 ^ 1024 - 2 ^ 971\<close>.\<close>

definition overflow64 :: real where
  "overflow64 = 2 ^ 1024"

text \<open>
  Round to nearest, ties to even; a result of magnitude \<open>2 ^ 1024\<close> or more has no finite
  binary64 number and becomes the infinity of its sign.
\<close>

definition round64 :: "real \<Rightarrow> double" where
  "round64 x =
     (if x = 0 then Finite 0
      else
        let q = quantum64 x;
            y = of_int (nearest_even (x / q)) * q
        in if overflow64 \<le> \<bar>y\<bar> then (if 0 < x then PInf else NInf)
           else Finite y)"

subsection \<open>Comparison operators\<close>

text \<open>A comparison with a NaN operand is false; the rest is the order of the extended reals.\<close>

fun flt :: "double \<Rightarrow> double \<Rightarrow> bool" where
  "flt NaN b = False"
| "flt a NaN = False"
| "flt PInf b = False"
| "flt NInf NInf = False"
| "flt NInf b = True"
| "flt (Finite x) PInf = True"
| "flt (Finite x) NInf = False"
| "flt (Finite x) (Finite y) = (x < y)"

fun feq :: "double \<Rightarrow> double \<Rightarrow> bool" where
  "feq NaN b = False"
| "feq a NaN = False"
| "feq PInf PInf = True"
| "feq NInf NInf = True"
| "feq (Finite x) (Finite y) = (x = y)"
| "feq a b = False"

definition fle :: "double \<Rightarrow> double \<Rightarrow> bool" where
  "fle a b = (flt a b \<or> feq a b)"

definition fgt :: "double \<Rightarrow> double \<Rightarrow> bool" where
  "fgt a b = flt b a"

definition fge :: "double \<Rightarrow> double \<Rightarrow> bool" where
  "fge a b = fle b a"

subsection \<open>Arithmetic operators\<close>

fun fneg :: "double \<Rightarrow> double" where
  "fneg NaN = NaN"
| "fneg PInf = NInf"
| "fneg NInf = PInf"
| "fneg (Finite x) = Finite (- x)"

fun fadd :: "double \<Rightarrow> double \<Rightarrow> double" where
  "fadd NaN b = NaN"
| "fadd a NaN = NaN"
| "fadd PInf NInf = NaN"
| "fadd NInf PInf = NaN"
| "fadd PInf b = PInf"
| "fadd NInf b = NInf"
| "fadd (Finite x) PInf = PInf"
| "fadd (Finite x) NInf = NInf"
| "fadd (Finite x) (Finite y) = round64 (x + y)"

fun fsub :: "double \<Rightarrow> double \<Rightarrow> double" where
  "fsub NaN b = NaN"
| "fsub a NaN = NaN"
| "fsub PInf PInf = NaN"
| "fsub NInf NInf = NaN"
| "fsub PInf b = PInf"
| "fsub NInf b = NInf"
| "fsub (Finite x) PInf = NInf"
| "fsub (Finite x) NInf = PInf"
| "fsub (Finite x) (Finite y) = round64 (x - y)"

text \<open>The product of an infinity and a number: NaN for zero, else the infinity of the sign.\<close>

definition inf_times :: "bool \<Rightarrow> real \<Rightarrow> double" where
  "inf_times positive x =
     (if x = 0 then NaN
      else if (0 < x) = positive then PInf else NInf)"

fun fmul :: "double \<Rightarrow> double \<Rightarrow> double" where
  "fmul NaN b = NaN"
| "fmul a NaN = NaN"
| "fmul PInf PInf = PInf"
| "fmul PInf NInf = NInf"
| "fmul NInf PInf = NInf"
| "fmul NInf NInf = PInf"
| "fmul PInf (Finite y) = inf_times True y"
| "fmul NInf (Finite y) = inf_times False y"
| "fmul (Finite x) PInf = inf_times True x"
| "fmul (Finite x) NInf = inf_times False x"
| "fmul (Finite x) (Finite y) = round64 (x * y)"

text \<open>\<open>std::sqrt\<close>: correctly rounded; NaN below zero.\<close>

fun fsqrt :: "double \<Rightarrow> double" where
  "fsqrt NaN = NaN"
| "fsqrt PInf = PInf"
| "fsqrt NInf = NaN"
| "fsqrt (Finite x) = (if x < 0 then NaN else round64 (sqrt x))"

text \<open>\<open>std::abs\<close> on a \<open>double\<close>: clears the sign, exact.\<close>

fun fabs :: "double \<Rightarrow> double" where
  "fabs NaN = NaN"
| "fabs PInf = PInf"
| "fabs NInf = PInf"
| "fabs (Finite x) = Finite \<bar>x\<bar>"

section \<open>\<open>struct DOFPose\<close>\<close>

record DOFPose =
  pitch :: double
  yaw :: double
  roll :: double
  transZ :: double

text \<open>\<open>bool operator==(const DOFPose& other) const\<close>\<close>

definition DOFPose_eq :: "DOFPose \<Rightarrow> DOFPose \<Rightarrow> bool" where
  "DOFPose_eq this other =
     (feq (pitch this) (pitch other) \<and>
      feq (yaw this) (yaw other) \<and>
      feq (roll this) (roll other) \<and>
      feq (transZ this) (transZ other))"

text \<open>\<open>bool operator!=(const DOFPose& other) const\<close>\<close>

definition DOFPose_ne :: "DOFPose \<Rightarrow> DOFPose \<Rightarrow> bool" where
  "DOFPose_ne this other = (\<not> DOFPose_eq this other)"

text \<open>\<open>bool closeTo(DOFPose &other, double rotEpsilon, double transZEpsilon) const\<close>\<close>

definition closeTo :: "DOFPose \<Rightarrow> DOFPose \<Rightarrow> double \<Rightarrow> double \<Rightarrow> bool" where
  "closeTo this other rotEpsilon transZEpsilon =
     (let diffPitch = fsub (pitch this) (pitch other);
          diffYaw = fsub (yaw this) (yaw other);
          diffRoll = fsub (roll this) (roll other);
          diffTransZ = fsub (transZ this) (transZ other);
          rotDist = fsqrt
            (fadd (fadd (fmul diffPitch diffPitch) (fmul diffYaw diffYaw))
               (fmul diffRoll diffRoll));
          transZDist = fabs diffTransZ
      in flt rotDist rotEpsilon \<and> flt transZDist transZEpsilon)"





text \<open>
  The same member function over a store of objects. \<open>this\<close> and the reference \<open>other\<close>
  are addresses, which may be the same address; every statement of the body reads a
  member through one of them and none assigns to one. The store is threaded through
  the reads in the order of the source.
\<close>

type_synonym addr = nat

type_synonym store = "addr \<Rightarrow> DOFPose"

definition load :: "(DOFPose \<Rightarrow> double) \<Rightarrow> addr \<Rightarrow> store \<Rightarrow> double \<times> store" where
  "load member a s = (member (s a), s)"

definition closeTo_mem ::
  "addr \<Rightarrow> addr \<Rightarrow> double \<Rightarrow> double \<Rightarrow> store \<Rightarrow> bool \<times> store" where
  "closeTo_mem this other rotEpsilon transZEpsilon s0 =
     (let (p1, s1) = load pitch this s0;
          (p2, s2) = load pitch other s1;
          diffPitch = fsub p1 p2;
          (y1, s3) = load yaw this s2;
          (y2, s4) = load yaw other s3;
          diffYaw = fsub y1 y2;
          (r1, s5) = load roll this s4;
          (r2, s6) = load roll other s5;
          diffRoll = fsub r1 r2;
          (t1, s7) = load transZ this s6;
          (t2, s8) = load transZ other s7;
          diffTransZ = fsub t1 t2;
          rotDist = fsqrt
            (fadd (fadd (fmul diffPitch diffPitch) (fmul diffYaw diffYaw))
               (fmul diffRoll diffRoll));
          transZDist = fabs diffTransZ
      in (flt rotDist rotEpsilon \<and> flt transZDist transZEpsilon, s8))"

text \<open>
  \<open>std::string toString() const\<close>. The string stream is its buffer; \<open>operator<<\<close>
  appends, a string literal as it is and a \<open>double\<close> as the stream's default
  formatting renders it. That formatting belongs to the standard library, not to the
  header: it is the parameter \<open>fmt\<close> (what it prints for the sign of a zero or of a NaN
  is not told apart here).
\<close>

definition put_string :: "string \<Rightarrow> string \<Rightarrow> string" where
  "put_string ss s = ss @ s"

definition put_double :: "(double \<Rightarrow> string) \<Rightarrow> string \<Rightarrow> double \<Rightarrow> string" where
  "put_double fmt ss d = ss @ fmt d"

definition toString :: "(double \<Rightarrow> string) \<Rightarrow> DOFPose \<Rightarrow> string" where
  "toString fmt this =
     (let ss = [];
          ss = put_double fmt (put_string ss ''pitch:'') (pitch this);
          ss = put_double fmt (put_string ss '' yaw:'') (yaw this);
          ss = put_double fmt (put_string ss '' roll:'') (roll this);
          ss = put_double fmt (put_string ss '' transZ:'') (transZ this)
      in ss)"

text \<open>
  The format as the specification words it, \<open>pitch:<v> yaw:<v> roll:<v> transZ:<v>\<close>:
  four labelled values, each \<open>label:value\<close>, in this order, one space between two.
\<close>

fun join_space :: "string list \<Rightarrow> string" where
  "join_space [] = []"
| "join_space [s] = s"
| "join_space (s # t # ts) = s @ '' '' @ join_space (t # ts)"

definition labelled :: "(double \<Rightarrow> string) \<Rightarrow> string \<times> double \<Rightarrow> string" where
  "labelled fmt lv = fst lv @ '':'' @ fmt (snd lv)"

definition pose_format :: "(double \<Rightarrow> string) \<Rightarrow> DOFPose \<Rightarrow> string" where
  "pose_format fmt p =
     join_space (map (labelled fmt)
       [(''pitch'', pitch p), (''yaw'', yaw p), (''roll'', roll p), (''transZ'', transZ p)])"

section \<open>\<open>struct DOFBoundaries\<close>\<close>

record DOFBoundaries =
  pitchMax :: double
  pitchMin :: double
  yawMax :: double
  yawMin :: double
  rollMax :: double
  rollMin :: double
  transZMax :: double
  transZMin :: double

text \<open>\<open>bool poseInside(DOFPose pose) const\<close>\<close>

definition poseInside :: "DOFBoundaries \<Rightarrow> DOFPose \<Rightarrow> bool" where
  "poseInside this pose =
     (fge (pitch pose) (pitchMin this) \<and>
      fle (pitch pose) (pitchMax this) \<and>
      fge (yaw pose) (yawMin this) \<and>
      fle (yaw pose) (yawMax this) \<and>
      fge (roll pose) (rollMin this) \<and>
      fle (roll pose) (rollMax this) \<and>
      fge (transZ pose) (transZMin this) \<and>
      fle (transZ pose) (transZMax this))"

section \<open>\<open>class PivotController\<close>\<close>

text \<open>
  The class is abstract; its three pure virtual operations have no body in the header.
  The record holds the two protected members; a derived class extends it.
\<close>

record PivotController =
  mDofPoseReady :: bool
  mDofBoundariesReady :: bool

text \<open>The default member initialisers of a newly constructed controller.\<close>

definition PivotController_new :: PivotController where
  "PivotController_new = \<lparr>mDofPoseReady = False, mDofBoundariesReady = False\<rparr>"

text \<open>
  \<open>bool isReady() const\<close>, with the object passed through: the value returned and the
  object after the call.
\<close>

definition isReady :: "'a PivotController_scheme \<Rightarrow> bool \<times> 'a PivotController_scheme" where
  "isReady this = (mDofBoundariesReady this \<and> mDofPoseReady this, this)"

section \<open>Properties of the rounding\<close>

subsection \<open>Rounding to an integer\<close>

lemma nearest_even_of_int: "nearest_even (of_int n) = n"
  by (simp add: nearest_even_def)

lemma nearest_even_lower: "\<lfloor>m\<rfloor> \<le> nearest_even m"
  by (simp add: nearest_even_def Let_def)

lemma nearest_even_nonneg: "0 \<le> m \<Longrightarrow> 0 \<le> nearest_even m"
proof -
  assume "0 \<le> m"
  then have "0 \<le> \<lfloor>m\<rfloor>" by simp
  then show ?thesis
    using nearest_even_lower [of m] by linarith
qed

lemma nearest_even_uminus: "nearest_even (- m) = - nearest_even m"
proof (cases "m \<in> \<int>")
  case True
  then obtain n where "m = of_int n" by (auto elim: Ints_cases)
  then show ?thesis
    using nearest_even_of_int [of "- n"] nearest_even_of_int [of n] by simp
next
  case False
  then have "m \<noteq> of_int \<lfloor>m\<rfloor>"
    by (metis Ints_of_int)
  then have "\<lceil>m\<rceil> = \<lfloor>m\<rfloor> + 1"
    by (simp add: ceiling_altdef)
  then have fl: "\<lfloor>- m\<rfloor> = - \<lfloor>m\<rfloor> - 1"
    by (simp add: ceiling_def)
  have d: "- m - of_int (- \<lfloor>m\<rfloor> - 1) = 1 - (m - of_int \<lfloor>m\<rfloor>)" by simp
  show ?thesis
    unfolding nearest_even_def Let_def fl d
    by (auto simp: algebra_simps)
qed

subsection \<open>Sign of the rounded value\<close>

text \<open>Rounding to nearest commutes with negation and keeps zero and the sign.\<close>

lemma exponent64_uminus: "exponent64 (- x) = exponent64 x"
  by (simp add: exponent64_def)

lemma quantum64_uminus: "quantum64 (- x) = quantum64 x"
  by (simp add: quantum64_def exponent64_uminus)

lemma quantum64_pos: "0 < quantum64 x"
  by (simp add: quantum64_def)

lemma round64_uminus: "round64 (- x) = fneg (round64 x)"
  by (auto simp add: round64_def Let_def quantum64_uminus nearest_even_uminus)

lemma round64_zero: "round64 0 = Finite 0"
  by (simp add: round64_def)

lemma round64_nonneg: "0 \<le> x \<Longrightarrow> \<not> flt (round64 x) (Finite 0)"
proof -
  assume "0 \<le> x"
  then have "0 \<le> x / quantum64 x"
    using quantum64_pos [of x] by simp
  then have "0 \<le> real_of_int (nearest_even (x / quantum64 x)) * quantum64 x"
    using quantum64_pos [of x] nearest_even_nonneg [of "x / quantum64 x"] by simp
  then show ?thesis
    using \<open>0 \<le> x\<close> by (auto simp add: round64_def Let_def)
qed

subsection \<open>Rounding a given number\<close>

text \<open>
  Once the binade \<open>2 ^ k \<le> \<bar>x\<bar> < 2 ^ (k + 1)\<close> of \<open>x\<close> is known, the rounded value is
  the nearest multiple of \<open>2 ^ (k - 52)\<close>; a multiple of it is its own rounding.
\<close>

lemma exponent64_eq:
  assumes "2 powi k \<le> \<bar>x\<bar>" and "\<bar>x\<bar> < 2 powi (k + 1)" and "- 1022 \<le> k"
  shows "exponent64 x = k"
proof -
  have pos: "0 < \<bar>x\<bar>"
    using assms(1) zero_less_power_int [of "2::real" k] by linarith
  have "(2::real) powr real_of_int k = 2 powi k"
    and "(2::real) powr real_of_int (k + 1) = 2 powi (k + 1)"
    using powr_real_of_int' [of "2::real" k] powr_real_of_int' [of "2::real" "k + 1"]
    by simp_all
  then have "\<lfloor>log 2 \<bar>x\<bar>\<rfloor> = k"
    using assms(1,2) pos floor_log_eq_powr_iff [of "\<bar>x\<bar>" 2 k] by simp
  then show ?thesis
    using assms(3) by (simp add: exponent64_def)
qed

lemma round64_eval:
  assumes "2 powi k \<le> \<bar>x\<bar>" and "\<bar>x\<bar> < 2 powi (k + 1)" and "- 1022 \<le> k"
    and "nearest_even (x / 2 powi (k - 52)) = n"
    and "\<bar>of_int n * 2 powi (k - 52)\<bar> < overflow64"
  shows "round64 x = Finite (of_int n * 2 powi (k - 52))"
proof -
  have "0 < \<bar>x\<bar>"
    using assms(1) zero_less_power_int [of "2::real" k] by linarith
  then have "x \<noteq> 0" by simp
  moreover have "quantum64 x = 2 powi (k - 52)"
    using exponent64_eq [OF assms(1,2,3)] by (simp add: quantum64_def)
  ultimately show ?thesis
    using assms(4,5) by (simp add: round64_def Let_def)
qed

lemma round64_exact:
  assumes "2 powi k \<le> \<bar>x\<bar>" and "\<bar>x\<bar> < 2 powi (k + 1)" and "- 1022 \<le> k"
    and "x = of_int n * 2 powi (k - 52)" and "\<bar>x\<bar> < overflow64"
  shows "round64 x = Finite x"
proof -
  have "0 < (2::real) powi (k - 52)" by simp
  then have "x / 2 powi (k - 52) = of_int n"
    using assms(4) by simp
  then have "nearest_even (x / 2 powi (k - 52)) = n"
    by (simp only: nearest_even_of_int)
  then show ?thesis
    using round64_eval [OF assms(1,2,3), of n] assms(4,5) by simp
qed

lemma overflow64_gt: "2 ^ 53 < overflow64"
  unfolding overflow64_def by (rule power_strict_increasing) simp_all

text \<open>The small integers of the examples are binary64 numbers.\<close>

lemma round64_1: "round64 1 = Finite 1"
  by (rule round64_exact [where k = 0 and n = 4503599627370496])
    (use overflow64_gt in \<open>simp_all add: power_int_minus\<close>)







text \<open>
  Literals that are not binary64 numbers. The literal \<open>0.1\<close> is the number
  \<open>0x3FB999999999999A\<close>, which fixes the rounding against a known value; \<open>5.0001\<close> and
  \<open>1.0001\<close> are the ones the examples use.
\<close>

lemma round64_tenth: "round64 (1 / 10) = Finite (7205759403792794 / 2 ^ 56)"
proof -
  have "nearest_even (1 / 10 / 2 powi (- 4 - 52)) = 7205759403792794"
    by (simp add: nearest_even_def power_int_minus)
  then show ?thesis
    using round64_eval [of "- 4" "1 / 10" 7205759403792794] overflow64_gt
    by (simp add: power_int_minus)
qed


lemma round64_1_0001: "round64 (10001 / 10000) = Finite (4504049987333233 / 2 ^ 52)"
proof -
  have "nearest_even (10001 / 10000 / 2 powi (0 - 52)) = 4504049987333233"
    by (simp add: nearest_even_def power_int_minus)
  then show ?thesis
    using round64_eval [of 0 "10001 / 10000" 4504049987333233] overflow64_gt
    by (simp add: power_int_minus)
qed

subsection \<open>Overflow, underflow and a rounded difference\<close>













subsection \<open>Comparisons\<close>

lemma feq_refl_iff: "feq a a = (\<not> isnan a)"
  by (cases a) simp_all

lemma feq_Finite: "feq (Finite x) b \<Longrightarrow> b = Finite x"
  by (cases b) simp_all

lemma fle_trans_not_fgt: "fle lo c \<Longrightarrow> fle c hi \<Longrightarrow> \<not> fgt lo hi"
  by (cases lo; cases c; cases hi) (auto simp add: fle_def fgt_def)

lemma nonneg_not_flt: "\<not> flt v (Finite 0) \<Longrightarrow> fle e (Finite 0) \<Longrightarrow> \<not> flt v e"
  by (cases v; cases e) (auto simp add: fle_def)

subsection \<open>Signs and symmetry of the arithmetic\<close>

lemma fsub_swap: "fsub b a = fneg (fsub a b)"
proof (cases a; cases b)
  fix x y assume "a = Finite x" "b = Finite y"
  then show ?thesis
    using round64_uminus [of "x - y"] by simp
qed simp_all

lemma fmul_fneg_self: "fmul (fneg d) (fneg d) = fmul d d"
  by (cases d) simp_all

lemma fabs_fneg: "fabs (fneg d) = fabs d"
  by (cases d) simp_all

lemma fsqrt_nonneg: "\<not> flt (fsqrt a) (Finite 0)"
  by (cases a) (simp_all add: round64_nonneg)

lemma fabs_nonneg: "\<not> flt (fabs a) (Finite 0)"
  by (cases a) simp_all

lemma fsub_self: "isfinite a \<Longrightarrow> fsub a a = Finite 0"
  by (cases a) (simp_all add: round64_zero)

subsection \<open>\<open>closeTo\<close> on equal poses\<close>

text \<open>A pose with finite fields is at distance zero from itself.\<close>

lemma closeTo_same:
  assumes "isfinite (pitch p)" and "isfinite (yaw p)" and "isfinite (roll p)"
    and "isfinite (transZ p)"
  shows "closeTo p p rotEpsilon transZEpsilon =
    (flt (Finite 0) rotEpsilon \<and> flt (Finite 0) transZEpsilon)"
  using assms by (simp add: closeTo_def Let_def fsub_self round64_zero)

lemma DOFPose_eq_finite:
  assumes "DOFPose_eq p q"
    and "isfinite (pitch p)" and "isfinite (yaw p)" and "isfinite (roll p)"
    and "isfinite (transZ p)"
  shows "q = p\<lparr>pitch := pitch p, yaw := yaw p, roll := roll p, transZ := transZ p\<rparr>"
proof -
  have "pitch q = pitch p"
    using assms(1,2) by (cases "pitch p") (auto simp add: DOFPose_eq_def dest: feq_Finite)
  moreover have "yaw q = yaw p"
    using assms(1,3) by (cases "yaw p") (auto simp add: DOFPose_eq_def dest: feq_Finite)
  moreover have "roll q = roll p"
    using assms(1,4) by (cases "roll p") (auto simp add: DOFPose_eq_def dest: feq_Finite)
  moreover have "transZ q = transZ p"
    using assms(1,5) by (cases "transZ p") (auto simp add: DOFPose_eq_def dest: feq_Finite)
  ultimately show ?thesis by simp
qed

subsection \<open>\<open>closeTo\<close> where no operation rounds\<close>





section \<open>Readiness\<close>

text \<open>
  Claim C3. \<open>isReady()\<close> returns the conjunction of the two readiness flags, whatever
  else a derived class stores: false for (false, false), (true, false) and
  (false, true), true for (true, true). A newly constructed controller has both flags
  false, so it is not ready. The call leaves the object, and so both flags, as it was.
\<close>

theorem isReady_conjunction:
  "fst (isReady c) = (mDofPoseReady c \<and> mDofBoundariesReady c) \<and>
   snd (isReady c) = c \<and>
   fst (isReady (c\<lparr>mDofPoseReady := False, mDofBoundariesReady := False\<rparr>)) = False \<and>
   fst (isReady (c\<lparr>mDofPoseReady := True, mDofBoundariesReady := False\<rparr>)) = False \<and>
   fst (isReady (c\<lparr>mDofPoseReady := False, mDofBoundariesReady := True\<rparr>)) = False \<and>
   fst (isReady (c\<lparr>mDofPoseReady := True, mDofBoundariesReady := True\<rparr>)) = True \<and>
   mDofPoseReady PivotController_new = False \<and>
   mDofBoundariesReady PivotController_new = False \<and>
   fst (isReady PivotController_new) = False"
  by (auto simp add: isReady_def PivotController_new_def)

section \<open>Closeness of two poses\<close>




text \<open>
  Claim C5. When \<open>rotEpsilon <= 0\<close> or \<open>transZEpsilon <= 0\<close>, \<open>closeTo\<close> returns false
  for every pair of poses: neither distance is ever below zero, and the comparison
  is strict.
\<close>

theorem closeTo_nonpositive_epsilon:
  assumes "fle rotEpsilon (Finite 0) \<or> fle transZEpsilon (Finite 0)"
  shows "closeTo p q rotEpsilon transZEpsilon = False"
proof -
  have "fle rotEpsilon (Finite 0) \<Longrightarrow> \<not> flt (fsqrt s) rotEpsilon" for s
    by (rule nonneg_not_flt [OF fsqrt_nonneg])
  moreover have "fle transZEpsilon (Finite 0) \<Longrightarrow> \<not> flt (fabs d) transZEpsilon" for d
    by (rule nonneg_not_flt [OF fabs_nonneg])
  ultimately show ?thesis
    using assms by (auto simp add: closeTo_def Let_def)
qed

theorem closeTo_nonpositive_epsilon_witness:
  "fle (Finite 0) (Finite 0) \<and>
   closeTo \<lparr>pitch = Finite 0, yaw = Finite 0, roll = Finite 0, transZ = Finite 0\<rparr>
     \<lparr>pitch = Finite 0, yaw = Finite 0, roll = Finite 0, transZ = Finite 0\<rparr>
     (Finite 0) (Finite 1) = False"
  using closeTo_nonpositive_epsilon
    [of "Finite 0" "Finite 1"
      "\<lparr>pitch = Finite 0, yaw = Finite 0, roll = Finite 0, transZ = Finite 0\<rparr>"
      "\<lparr>pitch = Finite 0, yaw = Finite 0, roll = Finite 0, transZ = Finite 0\<rparr>"]
  by (simp add: fle_def)

text \<open>
  Claim C6. \<open>closeTo\<close> is symmetric: \<open>p.closeTo(q, rotEpsilon, transZEpsilon)\<close> and
  \<open>q.closeTo(p, rotEpsilon, transZEpsilon)\<close> return the same value, for every pair of
  poses and every pair of tolerances.
\<close>

theorem closeTo_symmetric:
  "closeTo p q rotEpsilon transZEpsilon = closeTo q p rotEpsilon transZEpsilon"
proof -
  have "fsub (pitch q) (pitch p) = fneg (fsub (pitch p) (pitch q))"
    and "fsub (yaw q) (yaw p) = fneg (fsub (yaw p) (yaw q))"
    and "fsub (roll q) (roll p) = fneg (fsub (roll p) (roll q))"
    and "fsub (transZ q) (transZ p) = fneg (fsub (transZ p) (transZ q))"
    by (rule fsub_swap)+
  then show ?thesis
    by (simp add: closeTo_def Let_def fmul_fneg_self fabs_fneg)
qed

text \<open>
  Claim C9. \<open>closeTo\<close> modifies neither pose: the reference \<open>other\<close> is not \<open>const\<close>,
  yet after \<open>p.closeTo(q, rotEpsilon, transZEpsilon)\<close> the store holds every object as
  before, so all four fields of both poses are unchanged, and the value returned is the
  one computed from the two poses. This also holds when \<open>p\<close> and \<open>q\<close> are the same object.
\<close>

theorem closeTo_leaves_store:
  "closeTo_mem this other rotEpsilon transZEpsilon s =
     (closeTo (s this) (s other) rotEpsilon transZEpsilon, s) \<and>
   snd (closeTo_mem this this rotEpsilon transZEpsilon s) = s"
  by (simp add: closeTo_mem_def closeTo_def load_def Let_def)

section \<open>Exact comparison\<close>

text \<open>
  Claim C7 as stated fails on a pose with a NaN field, which differs from itself under
  \<open>==\<close> although its fields are identical, and on a pose with an infinite field, which
  is not close to itself (the difference of an infinity with itself is NaN).
\<close>

theorem pose_compare_counterexample:
  "DOFPose_eq \<lparr>pitch = NaN, yaw = Finite 0, roll = Finite 0, transZ = Finite 0\<rparr>
     \<lparr>pitch = NaN, yaw = Finite 0, roll = Finite 0, transZ = Finite 0\<rparr> = False \<and>
   DOFPose_ne \<lparr>pitch = NaN, yaw = Finite 0, roll = Finite 0, transZ = Finite 0\<rparr>
     \<lparr>pitch = NaN, yaw = Finite 0, roll = Finite 0, transZ = Finite 0\<rparr> = True \<and>
   flt (Finite 0) (Finite 1) \<and>
   closeTo \<lparr>pitch = PInf, yaw = Finite 0, roll = Finite 0, transZ = Finite 0\<rparr>
     \<lparr>pitch = PInf, yaw = Finite 0, roll = Finite 0, transZ = Finite 0\<rparr>
     (Finite 1) (Finite 1) = False"
  by (simp add: DOFPose_eq_def DOFPose_ne_def closeTo_def)

text \<open>
  Claim C7, amended. For every pose \<open>p\<close> without a NaN field, \<open>p == p\<close> is true and \<open>p != p\<close>
  is false; two poses with identical fields are the same value, so this is also the
  case of \<open>p == q\<close> with identical fields. For every pose \<open>p\<close> whose four fields are
  finite, \<open>p.closeTo(p, rotEpsilon, transZEpsilon)\<close> is true for every
  \<open>rotEpsilon > 0\<close> and \<open>transZEpsilon > 0\<close>. For every pair of poses, \<open>!=\<close> is the exact
  negation of \<open>==\<close>.
\<close>

theorem pose_compare_reflexive:
  "(\<not> isnan (pitch p) \<and> \<not> isnan (yaw p) \<and> \<not> isnan (roll p) \<and> \<not> isnan (transZ p)
      \<longrightarrow> DOFPose_eq p p \<and> DOFPose_ne p p = False) \<and>
   (isfinite (pitch p) \<and> isfinite (yaw p) \<and> isfinite (roll p) \<and> isfinite (transZ p) \<and>
    flt (Finite 0) rotEpsilon \<and> flt (Finite 0) transZEpsilon
      \<longrightarrow> closeTo p p rotEpsilon transZEpsilon) \<and>
   DOFPose_ne p q = (\<not> DOFPose_eq p q)"
  by (simp add: DOFPose_eq_def DOFPose_ne_def feq_refl_iff closeTo_same)

theorem pose_compare_reflexive_witness:
  "\<not> isnan (Finite (3 / 2)) \<and> \<not> isnan (Finite (- 2)) \<and> \<not> isnan (Finite 0) \<and>
   \<not> isnan (Finite (13 / 4)) \<and>
   isfinite (Finite (3 / 2)) \<and> isfinite (Finite (- 2)) \<and> isfinite (Finite 0) \<and>
   isfinite (Finite (13 / 4)) \<and>
   flt (Finite 0) (Finite 1) \<and>
   DOFPose_eq \<lparr>pitch = Finite (3 / 2), yaw = Finite (- 2), roll = Finite 0, transZ = Finite (13 / 4)\<rparr>
     \<lparr>pitch = Finite (3 / 2), yaw = Finite (- 2), roll = Finite 0, transZ = Finite (13 / 4)\<rparr> \<and>
   DOFPose_ne \<lparr>pitch = Finite (3 / 2), yaw = Finite (- 2), roll = Finite 0, transZ = Finite (13 / 4)\<rparr>
     \<lparr>pitch = Finite (3 / 2), yaw = Finite (- 2), roll = Finite 0, transZ = Finite (13 / 4)\<rparr>
     = False \<and>
   closeTo \<lparr>pitch = Finite (3 / 2), yaw = Finite (- 2), roll = Finite 0, transZ = Finite (13 / 4)\<rparr>
     \<lparr>pitch = Finite (3 / 2), yaw = Finite (- 2), roll = Finite 0, transZ = Finite (13 / 4)\<rparr>
     (Finite 1) (Finite 1)"
  using pose_compare_reflexive
    [of "\<lparr>pitch = Finite (3 / 2), yaw = Finite (- 2), roll = Finite 0, transZ = Finite (13 / 4)\<rparr>"
      "Finite 1" "Finite 1"]
  by simp

text \<open>
  Claim C10 as stated fails on two poses with the same infinite field: they are equal
  under \<open>==\<close> and not close to each other, whatever the tolerances.
\<close>

theorem eq_closeTo_counterexample:
  "DOFPose_eq \<lparr>pitch = PInf, yaw = Finite 0, roll = Finite 0, transZ = Finite 0\<rparr>
     \<lparr>pitch = PInf, yaw = Finite 0, roll = Finite 0, transZ = Finite 0\<rparr> \<and>
   flt (Finite 0) (Finite 1) \<and>
   closeTo \<lparr>pitch = PInf, yaw = Finite 0, roll = Finite 0, transZ = Finite 0\<rparr>
     \<lparr>pitch = PInf, yaw = Finite 0, roll = Finite 0, transZ = Finite 0\<rparr>
     (Finite 1) (Finite 1) = False"
  by (simp add: DOFPose_eq_def closeTo_def)

text \<open>
  Claim C10, amended. If \<open>p == q\<close> is true and the four fields of \<open>p\<close> are finite, then
  \<open>p.closeTo(q, rotEpsilon, transZEpsilon)\<close> is true for every \<open>rotEpsilon > 0\<close> and
  \<open>transZEpsilon > 0\<close>.
\<close>

theorem eq_implies_closeTo:
  assumes "DOFPose_eq p q"
    and "isfinite (pitch p)" and "isfinite (yaw p)" and "isfinite (roll p)"
    and "isfinite (transZ p)"
    and "flt (Finite 0) rotEpsilon" and "flt (Finite 0) transZEpsilon"
  shows "closeTo p q rotEpsilon transZEpsilon"
proof -
  have "q = p"
    using DOFPose_eq_finite [OF assms(1-5)] by simp
  then show ?thesis
    using assms(2-7) by (simp add: closeTo_same)
qed

theorem eq_implies_closeTo_witness:
  "DOFPose_eq \<lparr>pitch = Finite 1, yaw = Finite 2, roll = Finite 3, transZ = Finite 4\<rparr>
     \<lparr>pitch = Finite 1, yaw = Finite 2, roll = Finite 3, transZ = Finite 4\<rparr> \<and>
   isfinite (Finite 1) \<and> isfinite (Finite 2) \<and> isfinite (Finite 3) \<and> isfinite (Finite 4) \<and>
   flt (Finite 0) (Finite (1 / 2)) \<and> flt (Finite 0) PInf \<and>
   closeTo \<lparr>pitch = Finite 1, yaw = Finite 2, roll = Finite 3, transZ = Finite 4\<rparr>
     \<lparr>pitch = Finite 1, yaw = Finite 2, roll = Finite 3, transZ = Finite 4\<rparr>
     (Finite (1 / 2)) PInf"
  using eq_implies_closeTo
    [of "\<lparr>pitch = Finite 1, yaw = Finite 2, roll = Finite 3, transZ = Finite 4\<rparr>"
      "\<lparr>pitch = Finite 1, yaw = Finite 2, roll = Finite 3, transZ = Finite 4\<rparr>"
      "Finite (1 / 2)" PInf]
  by (simp add: DOFPose_eq_def)

section \<open>Rendering\<close>

text \<open>
  Claim C8. \<open>toString()\<close> produces \<open>pitch:<v> yaw:<v> roll:<v> transZ:<v>\<close>: the four
  fields in this order, each after its label and a colon, with one space between two
  fields, whatever the stream's rendering of a number is.
\<close>

theorem toString_format:
  "toString fmt p = pose_format fmt p \<and>
   toString fmt p =
     ''pitch:'' @ fmt (pitch p) @ '' yaw:'' @ fmt (yaw p) @ '' roll:'' @ fmt (roll p) @
     '' transZ:'' @ fmt (transZ p)"
  by (simp add: toString_def pose_format_def labelled_def put_string_def put_double_def)

section \<open>Containment in the boundaries\<close>

text \<open>
  Claim C2. \<open>b.poseInside(p)\<close> is true exactly when each of the four coordinates lies
  between its minimum and its maximum, both bounds included. With \<open>pitchMin = -1\<close>,
  \<open>pitchMax = 1\<close> and every other bound 0, the pose (1, 0, 0, 0) is inside and the pose
  (1.0001, 0, 0, 0) is not.
\<close>

theorem poseInside_inclusive_bounds:
  "poseInside b p =
     (fle (pitchMin b) (pitch p) \<and> fle (pitch p) (pitchMax b) \<and>
      fle (yawMin b) (yaw p) \<and> fle (yaw p) (yawMax b) \<and>
      fle (rollMin b) (roll p) \<and> fle (roll p) (rollMax b) \<and>
      fle (transZMin b) (transZ p) \<and> fle (transZ p) (transZMax b)) \<and>
   poseInside
     \<lparr>pitchMax = round64 1, pitchMin = fneg (round64 1), yawMax = Finite 0, yawMin = Finite 0,
      rollMax = Finite 0, rollMin = Finite 0, transZMax = Finite 0, transZMin = Finite 0\<rparr>
     \<lparr>pitch = round64 1, yaw = Finite 0, roll = Finite 0, transZ = Finite 0\<rparr> = True \<and>
   poseInside
     \<lparr>pitchMax = round64 1, pitchMin = fneg (round64 1), yawMax = Finite 0, yawMin = Finite 0,
      rollMax = Finite 0, rollMin = Finite 0, transZMax = Finite 0, transZMin = Finite 0\<rparr>
     \<lparr>pitch = round64 (10001 / 10000), yaw = Finite 0, roll = Finite 0, transZ = Finite 0\<rparr>
     = False"
  by (simp add: poseInside_def fge_def fle_def round64_1 round64_1_0001)

text \<open>
  Claim C4. Boundaries whose minimum exceeds the maximum on at least one axis contain
  no pose: \<open>poseInside\<close> returns false for every pose.
\<close>

theorem poseInside_degenerate:
  assumes "fgt (pitchMin b) (pitchMax b) \<or> fgt (yawMin b) (yawMax b) \<or>
           fgt (rollMin b) (rollMax b) \<or> fgt (transZMin b) (transZMax b)"
  shows "poseInside b p = False"
proof (rule ccontr)
  assume "poseInside b p \<noteq> False"
  then have inside: "poseInside b p" by simp
  from inside have bounds:
    "fle (pitchMin b) (pitch p)" "fle (pitch p) (pitchMax b)"
    "fle (yawMin b) (yaw p)" "fle (yaw p) (yawMax b)"
    "fle (rollMin b) (roll p)" "fle (roll p) (rollMax b)"
    "fle (transZMin b) (transZ p)" "fle (transZ p) (transZMax b)"
    by (simp_all add: poseInside_def fge_def)
  have "\<not> fgt (pitchMin b) (pitchMax b)"
    by (rule fle_trans_not_fgt [OF bounds(1,2)])
  moreover have "\<not> fgt (yawMin b) (yawMax b)"
    by (rule fle_trans_not_fgt [OF bounds(3,4)])
  moreover have "\<not> fgt (rollMin b) (rollMax b)"
    by (rule fle_trans_not_fgt [OF bounds(5,6)])
  moreover have "\<not> fgt (transZMin b) (transZMax b)"
    by (rule fle_trans_not_fgt [OF bounds(7,8)])
  ultimately show False
    using assms by blast
qed

theorem poseInside_degenerate_witness:
  "fgt (Finite 1) (Finite (- 1)) \<and>
   poseInside
     \<lparr>pitchMax = Finite (- 1), pitchMin = Finite 1, yawMax = Finite 0, yawMin = Finite 0,
      rollMax = Finite 0, rollMin = Finite 0, transZMax = Finite 0, transZMin = Finite 0\<rparr>
     \<lparr>pitch = Finite 0, yaw = Finite 0, roll = Finite 0, transZ = Finite 0\<rparr> = False"
  using poseInside_degenerate
    [of "\<lparr>pitchMax = Finite (- 1), pitchMin = Finite 1, yawMax = Finite 0, yawMin = Finite 0,
      rollMax = Finite 0, rollMin = Finite 0, transZMax = Finite 0, transZMin = Finite 0\<rparr>"
      "\<lparr>pitch = Finite 0, yaw = Finite 0, roll = Finite 0, transZ = Finite 0\<rparr>"]
  by (simp add: fgt_def)

end
